theory Spec2Isabelle
  imports Complex_Main
begin

section \<open>Data model\<close>

text \<open>
  The program keeps four Python lists of dictionaries in the session state and hands
  them to the calculation functions as pandas data frames. Numbers are Python ints and
  floats; they are modelled as exact reals, so rounding of binary floating point is
  outside this development. A dictionary of the documented schema is a record; the one
  key the code itself treats as optional, \<open>final_contribution\<close>, is an option
  (\<open>None\<close>: the key is absent, the cell of the data frame is NaN).
\<close>

datatype py_error = KeyError string | IndexError | ValueError

record course =
  code :: string
  name :: string
  carry_weight :: real
  exam_weight :: real

record carry_mark =
  cm_course_code :: string
  element_type :: string
  element_name :: string
  earned :: real
  max_possible :: real
  weight_percentage :: real
  final_contribution :: "real option"
  date_added :: string

text \<open>
  A \<open>due_date\<close> cell is the string the user entered or, once
  \<open>pd.to_datetime\<close> has replaced the column, a timestamp (microseconds since the
  epoch). \<open>week\<close> is the cell of the column that \<open>get_weekly_workload\<close>
  adds: the weekly period, named by the day number of its Monday.
\<close>

datatype date_cell = DateStr string | Timestamp int

record assignment =
  title :: string
  a_course_code :: string
  a_type :: string
  due_date :: date_cell
  status :: string
  description :: string
  week :: "int option"

text \<open>A final-exam entry is opaque but for its \<open>course_code\<close>.\<close>

record final_exam =
  fe_course_code :: string
  fe_fields :: "(string \<times> string) list"

record session_state =
  courses :: "course list"
  carry_marks :: "carry_mark list"
  final_exams :: "final_exam list"
  assignments :: "assignment list"
  theme_color :: string

subsection \<open>Data frames\<close>

text \<open>
  A data frame is its column labels and its rows. A cell is read through its column:
  \<open>df[col]\<close> raises \<open>KeyError\<close> when \<open>col\<close> is not a column, whatever the
  rows hold. The order of the column labels plays no part in any function below.
\<close>

record 'r frame =
  columns :: "string list"
  rows :: "'r list"

definition has_column :: "string \<Rightarrow> 'r frame \<Rightarrow> bool" where
  "has_column col df \<longleftrightarrow> col \<in> set (columns df)"

text \<open>\<open>df.empty\<close>: some axis has length 0.\<close>

definition df_empty :: "'r frame \<Rightarrow> bool" where
  "df_empty df \<longleftrightarrow> rows df = [] \<or> columns df = []"

text \<open>\<open>df[mask]\<close>: the rows the mask selects, under the same columns.\<close>

definition df_filter :: "('r \<Rightarrow> bool) \<Rightarrow> 'r frame \<Rightarrow> 'r frame" where
  "df_filter p df = df\<lparr>rows := filter p (rows df)\<rparr>"

text \<open>\<open>Series.sum()\<close> skips NaN cells; the sum of no cell is 0.\<close>

definition sum_skipna :: "real option list \<Rightarrow> real" where
  "sum_skipna xs = sum_list (map (\<lambda>v. case v of None \<Rightarrow> 0 | Some x \<Rightarrow> x) xs)"

section \<open>Record store (data_manager.py)\<close>

definition get_default_courses :: "course list" where
  "get_default_courses =
    [\<lparr>code = ''BSD 1323'', name = ''Storytelling & Data Visualization'', carry_weight = 60, exam_weight = 40\<rparr>,
     \<lparr>code = ''BSD 2143'', name = ''Operational Research'', carry_weight = 60, exam_weight = 40\<rparr>,
     \<lparr>code = ''BUM 2413'', name = ''Applied Statistics'', carry_weight = 60, exam_weight = 40\<rparr>,
     \<lparr>code = ''BUM 2123'', name = ''Applied Calculus'', carry_weight = 60, exam_weight = 40\<rparr>,
     \<lparr>code = ''BCU 1023'', name = ''Programming Technique'', carry_weight = 60, exam_weight = 40\<rparr>,
     \<lparr>code = ''ULS 1312'', name = ''Spanish A1'', carry_weight = 60, exam_weight = 40\<rparr>,
     \<lparr>code = ''UHE 3032'', name = ''Introduction to Human Behaviour'', carry_weight = 60, exam_weight = 40\<rparr>]"

text \<open>The session state of a fresh session after \<open>initialize_session_state()\<close>.\<close>

definition initialize_session_state :: session_state where
  "initialize_session_state =
    \<lparr>courses = get_default_courses, carry_marks = [], final_exams = [],
     assignments = [], theme_color = ''#1f77b4''\<rparr>"

text \<open>
  \<open>pd.DataFrame(list_of_dicts)\<close>: the columns are the keys that occur in some
  dictionary, so an empty list gives a frame with no column at all, and the
  \<open>final_contribution\<close> column exists when some entry has the key.
\<close>

definition course_columns :: "string list" where
  "course_columns = [''code'', ''name'', ''carry_weight'', ''exam_weight'']"

definition carry_mark_columns :: "string list" where
  "carry_mark_columns =
    [''course_code'', ''element_type'', ''element_name'', ''earned'', ''max_possible'',
     ''weight_percentage'', ''final_contribution'', ''date_added'']"

definition assignment_columns :: "string list" where
  "assignment_columns = [''title'', ''course_code'', ''type'', ''due_date'', ''status'', ''description'']"

definition DataFrame_courses :: "course list \<Rightarrow> course frame" where
  "DataFrame_courses cs = \<lparr>columns = (if cs = [] then [] else course_columns), rows = cs\<rparr>"

definition DataFrame_carry_marks :: "carry_mark list \<Rightarrow> carry_mark frame" where
  "DataFrame_carry_marks ms =
    \<lparr>columns =
       (if ms = [] then []
        else filter (\<lambda>c. c = ''final_contribution'' \<longrightarrow> list_ex (\<lambda>m. final_contribution m \<noteq> None) ms)
               carry_mark_columns),
     rows = ms\<rparr>"

definition DataFrame_assignments :: "assignment list \<Rightarrow> assignment frame" where
  "DataFrame_assignments as =
    \<lparr>columns =
       (if as = [] then []
        else assignment_columns @ (if list_ex (\<lambda>a. week a \<noteq> None) as then [''week''] else [])),
     rows = as\<rparr>"

definition get_courses_df :: "session_state \<Rightarrow> course frame" where
  "get_courses_df s = DataFrame_courses (courses s)"

definition get_carry_marks_df :: "session_state \<Rightarrow> carry_mark frame" where
  "get_carry_marks_df s =
    (if carry_marks s \<noteq> [] then DataFrame_carry_marks (carry_marks s)
     else \<lparr>columns = carry_mark_columns, rows = []\<rparr>)"

definition get_assignments_df :: "session_state \<Rightarrow> assignment frame" where
  "get_assignments_df s =
    (if assignments s \<noteq> [] then DataFrame_assignments (assignments s)
     else \<lparr>columns = assignment_columns, rows = []\<rparr>)"

text \<open>
  The indexed operations take a Python int. \<open>0 <= index < len(xs)\<close> guards every
  list access, so none of them can raise \<open>IndexError\<close>.
\<close>

definition in_range :: "int \<Rightarrow> 'a list \<Rightarrow> bool" where
  "in_range index xs \<longleftrightarrow> 0 \<le> index \<and> index < int (length xs)"

text \<open>\<open>del xs[index]\<close> for an index in range.\<close>

definition del_at :: "nat \<Rightarrow> 'a list \<Rightarrow> 'a list" where
  "del_at i xs = take i xs @ drop (Suc i) xs"

definition add_course :: "course \<Rightarrow> session_state \<Rightarrow> session_state" where
  "add_course course_data s = s\<lparr>courses := courses s @ [course_data]\<rparr>"

definition update_course :: "int \<Rightarrow> course \<Rightarrow> session_state \<Rightarrow> session_state" where
  "update_course index course_data s =
    (if in_range index (courses s)
     then s\<lparr>courses := (courses s)[nat index := course_data]\<rparr>
     else s)"

definition delete_course :: "int \<Rightarrow> session_state \<Rightarrow> session_state" where
  "delete_course index s =
    (if in_range index (courses s)
     then let course_code = code (courses s ! nat index) in
       s\<lparr>carry_marks := filter (\<lambda>cm. cm_course_code cm \<noteq> course_code) (carry_marks s),
         assignments := filter (\<lambda>a. a_course_code a \<noteq> course_code) (assignments s),
         final_exams := filter (\<lambda>fe. fe_course_code fe \<noteq> course_code) (final_exams s),
         courses := del_at (nat index) (courses s)\<rparr>
     else s)"

text \<open>\<open>today\<close> is \<open>datetime.now().strftime("%Y-%m-%d")\<close>, read by the caller.\<close>

definition add_carry_mark :: "string \<Rightarrow> carry_mark \<Rightarrow> session_state \<Rightarrow> session_state" where
  "add_carry_mark today carry_data s =
    s\<lparr>carry_marks := carry_marks s @ [carry_data\<lparr>date_added := today\<rparr>]\<rparr>"

definition add_assignment :: "assignment \<Rightarrow> session_state \<Rightarrow> session_state" where
  "add_assignment assignment_data s = s\<lparr>assignments := assignments s @ [assignment_data]\<rparr>"

definition update_assignment_status :: "int \<Rightarrow> string \<Rightarrow> session_state \<Rightarrow> session_state" where
  "update_assignment_status index new_status s =
    (if in_range index (assignments s)
     then s\<lparr>assignments :=
            (assignments s)[nat index := (assignments s ! nat index)\<lparr>status := new_status\<rparr>]\<rparr>
     else s)"

definition delete_assignment :: "int \<Rightarrow> session_state \<Rightarrow> session_state" where
  "delete_assignment index s =
    (if in_range index (assignments s)
     then s\<lparr>assignments := del_at (nat index) (assignments s)\<rparr>
     else s)"

section \<open>Grade calculator (utils/calculations.py)\<close>

definition calculate_carry_percentage :: "string \<Rightarrow> carry_mark frame \<Rightarrow> py_error + real" where
  "calculate_carry_percentage course_code carry_marks_df =
    (if df_empty carry_marks_df then Inr 0
     else if \<not> has_column ''course_code'' carry_marks_df then Inl (KeyError ''course_code'')
     else let course_marks = df_filter (\<lambda>m. cm_course_code m = course_code) carry_marks_df in
       if df_empty course_marks then Inr 0
       else if \<not> has_column ''earned'' course_marks then Inl (KeyError ''earned'')
       else if \<not> has_column ''max_possible'' course_marks then Inl (KeyError ''max_possible'')
       else let total_earned = sum_list (map earned (rows course_marks));
                total_max = sum_list (map max_possible (rows course_marks)) in
         if total_max = 0 then Inr 0
         else Inr ((total_earned / total_max) * 100))"

text \<open>
  The parameters \<open>carry_weight\<close> and \<open>exam_weight\<close> of the source are
  written \<open>carry_w\<close> and \<open>exam_w\<close>: the names are those of the course's fields.
\<close>

definition calculate_final_exam_requirement :: "real \<Rightarrow> real \<Rightarrow> real \<Rightarrow> real \<Rightarrow> real" where
  "calculate_final_exam_requirement target_grade carry_percentage carry_w exam_w =
    (if exam_w = 0 then 0
     else let carry_contribution = (carry_percentage / 100) * (carry_w / 100) * 100;
              required_exam_contribution = target_grade - carry_contribution;
              required_exam_percentage = (required_exam_contribution / exam_w) * 100 in
       max 0 required_exam_percentage)"

text \<open>
  \<open>course_info.iloc[0]\<close> raises \<open>IndexError\<close> on a frame without rows; the
  check of \<open>course_info.empty\<close> before it excludes that.
\<close>

definition calculate_current_grade ::
    "string \<Rightarrow> carry_mark frame \<Rightarrow> course frame \<Rightarrow> py_error + real" where
  "calculate_current_grade course_code carry_marks_df courses_df =
    (if \<not> has_column ''code'' courses_df then Inl (KeyError ''code'')
     else let course_info = df_filter (\<lambda>c. code c = course_code) courses_df in
       if df_empty course_info then Inr 0
       else if \<not> has_column ''course_code'' carry_marks_df then Inl (KeyError ''course_code'')
       else let course_marks = df_filter (\<lambda>m. cm_course_code m = course_code) carry_marks_df in
         if df_empty course_marks then Inr 0
         else if has_column ''final_contribution'' course_marks
           then Inr (sum_skipna (map final_contribution (rows course_marks)))
         else (case rows course_info of
                 [] \<Rightarrow> Inl IndexError
               | c # _ \<Rightarrow>
                   if \<not> has_column ''carry_weight'' course_info then Inl (KeyError ''carry_weight'')
                   else (case calculate_carry_percentage course_code carry_marks_df of
                           Inl e \<Rightarrow> Inl e
                         | Inr carry_percentage \<Rightarrow> Inr ((carry_percentage / 100) * carry_weight c))))"

definition get_grade_letter :: "real \<Rightarrow> string" where
  "get_grade_letter percentage =
    (if percentage \<ge> 90 then ''A+''
     else if percentage \<ge> 85 then ''A''
     else if percentage \<ge> 80 then ''A-''
     else if percentage \<ge> 75 then ''B+''
     else if percentage \<ge> 70 then ''B''
     else if percentage \<ge> 65 then ''B-''
     else if percentage \<ge> 60 then ''C+''
     else if percentage \<ge> 55 then ''C''
     else if percentage \<ge> 50 then ''C-''
     else ''F'')"

text \<open>
  \<open>calculate_days_until_due\<close> calls two library functions, taken as parameters:
  \<open>strptime\<close> is \<open>datetime.strptime(\<cdot>, "%Y-%m-%d")\<close>, which returns the parsed
  date at midnight (microseconds since the epoch) or raises, and \<open>now\<close> is the value
  of \<open>datetime.now()\<close> in the same unit. \<open>timedelta.days\<close> is the delta divided
  by one day and rounded down (the remaining seconds of a timedelta are never negative).
  The bare \<open>except\<close> turns every exception into the result 0.
\<close>

definition us_per_day :: int where
  "us_per_day = 86400000000"

definition timedelta_days :: "int \<Rightarrow> int" where
  "timedelta_days delta = delta div us_per_day"

definition calculate_days_until_due :: "(string \<Rightarrow> py_error + int) \<Rightarrow> int \<Rightarrow> string \<Rightarrow> int" where
  "calculate_days_until_due strptime now due_date_str =
    (case strptime due_date_str of
       Inr due \<Rightarrow> timedelta_days (due - now)
     | Inl _ \<Rightarrow> 0)"

text \<open>
  \<open>get_weekly_workload\<close> assigns to two columns of the frame it is given, so the
  model returns that frame as the call leaves it, beside the result. \<open>to_datetime\<close>
  is \<open>pd.to_datetime\<close> on one cell (a parameter: pandas accepts many date formats);
  it raises before anything is assigned when a cell does not parse.
  \<open>dt.to_period('W')\<close> is the Monday-to-Sunday week of the timestamp; day 0 of the
  epoch is a Thursday. \<open>groupby('week')\<close> lists the weeks of the \<open>week\<close>
  column in ascending order and leaves out rows without one;
  \<open>count\<close> counts the rows of a week and the lambda those whose status is
  \<open>pending\<close>.
\<close>

record weekly_row =
  wk_week :: int
  total_assignments :: nat
  pending_assignments :: nat

fun to_datetime_all :: "(date_cell \<Rightarrow> py_error + int) \<Rightarrow> date_cell list \<Rightarrow> py_error + int list" where
  "to_datetime_all to_datetime [] = Inr []"
| "to_datetime_all to_datetime (c # cs) =
    (case to_datetime c of
       Inl e \<Rightarrow> Inl e
     | Inr t \<Rightarrow> (case to_datetime_all to_datetime cs of Inl e \<Rightarrow> Inl e | Inr ts \<Rightarrow> Inr (t # ts)))"

definition to_period_W :: "int \<Rightarrow> int" where
  "to_period_W t = (let d = t div us_per_day in d - (d + 3) mod 7)"

definition set_column :: "string \<Rightarrow> string list \<Rightarrow> string list" where
  "set_column col cols = (if col \<in> set cols then cols else cols @ [col])"

definition weekly_summary :: "assignment list \<Rightarrow> weekly_row list" where
  "weekly_summary as =
    map (\<lambda>w. \<lparr>wk_week = w,
              total_assignments = length (filter (\<lambda>a. week a = Some w) as),
              pending_assignments = length (filter (\<lambda>a. week a = Some w \<and> status a = ''pending'') as)\<rparr>)
        (sorted_list_of_set
           (set (concat (map (\<lambda>a. case week a of Some w \<Rightarrow> [w] | None \<Rightarrow> []) as))))"

definition get_weekly_workload ::
    "(date_cell \<Rightarrow> py_error + int) \<Rightarrow> assignment frame \<Rightarrow> (py_error + weekly_row frame) \<times> assignment frame" where
  "get_weekly_workload to_datetime assignments_df =
    (if df_empty assignments_df then (Inr \<lparr>columns = [], rows = []\<rparr>, assignments_df)
     else if \<not> has_column ''due_date'' assignments_df then (Inl (KeyError ''due_date''), assignments_df)
     else (case to_datetime_all to_datetime (map due_date (rows assignments_df)) of
             Inl e \<Rightarrow> (Inl e, assignments_df)
           | Inr ts \<Rightarrow>
               let df1 = assignments_df\<lparr>rows := map (\<lambda>(a, t). a\<lparr>due_date := Timestamp t\<rparr>) (zip (rows assignments_df) ts)\<rparr>;
                   df2 = df1\<lparr>columns := set_column ''week'' (columns df1),
                             rows := map (\<lambda>a. a\<lparr>week := (case due_date a of Timestamp t \<Rightarrow> Some (to_period_W t) | DateStr _ \<Rightarrow> None)\<rparr>) (rows df1)\<rparr>
               in if \<not> has_column ''title'' df2 then (Inl (KeyError ''title''), df2)
                  else if \<not> has_column ''status'' df2 then (Inl (KeyError ''status''), df2)
                  else (Inr \<lparr>columns = [''week'', ''total_assignments'', ''pending_assignments''],
                             rows = weekly_summary (rows df2)\<rparr>, df2)))"

definition calculate_completion_rate :: "assignment frame \<Rightarrow> py_error + real" where
  "calculate_completion_rate assignments_df =
    (if df_empty assignments_df then Inr 0
     else if \<not> has_column ''status'' assignments_df then Inl (KeyError ''status'')
     else let completed = length (filter (\<lambda>a. status a = ''completed'') (rows assignments_df));
              total = length (rows assignments_df) in
       if total > 0 then Inr ((real completed / real total) * 100) else Inr 0)"

subsection \<open>Example records\<close>

text \<open>A carry mark with the given course code, points and contribution, used in examples.\<close>

definition quiz_mark :: "string \<Rightarrow> real \<Rightarrow> real \<Rightarrow> real option \<Rightarrow> carry_mark" where
  "quiz_mark c e m fc =
    \<lparr>cm_course_code = c, element_type = ''Quiz'', element_name = ''Quiz'', earned = e,
     max_possible = m, weight_percentage = 10, final_contribution = fc,
     date_added = ''2024-01-15''\<rparr>"

section \<open>Basic facts\<close>

lemma in_range_iff: "in_range i xs \<longleftrightarrow> 0 \<le> i \<and> nat i < length xs"
  by (auto simp: in_range_def)

lemma df_filter_simps [simp]:
  "columns (df_filter p df) = columns df"
  "rows (df_filter p df) = filter p (rows df)"
  "has_column c (df_filter p df) = has_column c df"
  by (simp_all add: df_filter_def has_column_def)

lemma DataFrame_carry_marks_columns:
  assumes "ms \<noteq> []"
  shows "has_column ''course_code'' (DataFrame_carry_marks ms)"
    and "has_column ''earned'' (DataFrame_carry_marks ms)"
    and "has_column ''max_possible'' (DataFrame_carry_marks ms)"
    and "has_column ''final_contribution'' (DataFrame_carry_marks ms)
          \<longleftrightarrow> list_ex (\<lambda>m. final_contribution m \<noteq> None) ms"
  using assms by (simp_all add: DataFrame_carry_marks_def has_column_def carry_mark_columns_def)

lemma get_carry_marks_df_rows [simp]: "rows (get_carry_marks_df s) = carry_marks s"
  by (simp add: get_carry_marks_df_def DataFrame_carry_marks_def)

lemma get_carry_marks_df_columns:
  "has_column ''course_code'' (get_carry_marks_df s)"
  "has_column ''earned'' (get_carry_marks_df s)"
  "has_column ''max_possible'' (get_carry_marks_df s)"
  by (simp_all add: get_carry_marks_df_def DataFrame_carry_marks_columns)
     (simp_all add: has_column_def carry_mark_columns_def)

lemma get_carry_marks_df_final_contribution:
  "has_column ''final_contribution'' (get_carry_marks_df s)
    \<longleftrightarrow> carry_marks s = [] \<or> list_ex (\<lambda>m. final_contribution m \<noteq> None) (carry_marks s)"
  by (simp add: get_carry_marks_df_def DataFrame_carry_marks_columns)
     (simp add: has_column_def carry_mark_columns_def)

lemma has_column_not_empty: "has_column c df \<Longrightarrow> df_empty df \<longleftrightarrow> rows df = []"
  by (auto simp: has_column_def df_empty_def)

lemma quiz_mark_simps [simp]:
  "cm_course_code (quiz_mark c e m fc) = c" "earned (quiz_mark c e m fc) = e"
  "max_possible (quiz_mark c e m fc) = m" "final_contribution (quiz_mark c e m fc) = fc"
  by (simp_all add: quiz_mark_def)

lemma carry_percentage_eq:
  assumes "df_empty df \<or> (has_column ''course_code'' df \<and> has_column ''earned'' df
             \<and> has_column ''max_possible'' df)"
  shows "calculate_carry_percentage course_code df =
    Inr (let ms = filter (\<lambda>m. cm_course_code m = course_code) (rows df) in
         if df_empty df then 0
         else if ms = [] then 0
         else if sum_list (map max_possible ms) = 0 then 0
         else 100 * sum_list (map earned ms) / sum_list (map max_possible ms))"
proof (cases "df_empty df")
  case True
  then show ?thesis by (simp add: calculate_carry_percentage_def)
next
  case False
  with assms have cols: "has_column ''course_code'' df" "has_column ''earned'' df"
      "has_column ''max_possible'' df" by auto
  have "df_empty (df_filter p df) \<longleftrightarrow> filter p (rows df) = []" for p
    using cols(1) by (simp add: has_column_not_empty)
  with False cols show ?thesis
    by (simp add: calculate_carry_percentage_def Let_def)
qed

lemma del_at_nth:
  "i < length xs \<Longrightarrow> j < length xs - 1 \<Longrightarrow>
     del_at i xs ! j = (if j < i then xs ! j else xs ! Suc j)"
  by (auto simp: del_at_def nth_append min_def)

lemma length_del_at: "i < length xs \<Longrightarrow> length (del_at i xs) = length xs - 1"
  by (auto simp: del_at_def)

lemma distinct_update:
  assumes "distinct (map f xs)" and "i < length xs"
  shows "distinct (map f (xs[i := c])) \<longleftrightarrow> f c \<notin> f ` set (del_at i xs)"
proof -
  have "distinct (map f (take i xs @ xs ! i # drop (Suc i) xs))"
    using assms by (simp add: id_take_nth_drop [symmetric])
  then show ?thesis
    using assms(2) by (auto simp: upd_conv_take_nth_drop del_at_def)
qed

lemma distinct_del_at:
  assumes "distinct (map f xs)"
  shows "distinct (map f (del_at i xs))"
proof (cases "i < length xs")
  case True
  have "distinct (map f (take i xs @ xs ! i # drop (Suc i) xs))"
    using assms True by (simp add: id_take_nth_drop [symmetric])
  then show ?thesis by (auto simp: del_at_def)
next
  case False
  then show ?thesis using assms by (simp add: del_at_def)
qed

lemma floor_div_bounds:
  fixes d k :: int
  assumes "0 < k"
  shows "d div k * k \<le> d" and "d < (d div k + 1) * k" and "d div k < 0 \<longleftrightarrow> d < 0"
proof -
  have e: "d div k * k + d mod k = d" by simp
  have m: "0 \<le> d mod k" "d mod k < k" using assms by simp_all
  show "d div k * k \<le> d" using e m by linarith
  have "(d div k + 1) * k = d div k * k + k" by (simp add: algebra_simps)
  then show "d < (d div k + 1) * k" using e m by linarith
  show "d div k < 0 \<longleftrightarrow> d < 0" using assms by (simp add: pos_imp_zdiv_neg_iff)
qed

lemma get_courses_df_rows [simp]: "rows (get_courses_df s) = courses s"
  by (simp add: get_courses_df_def DataFrame_courses_def)

lemma get_courses_df_columns:
  assumes "courses s \<noteq> []"
  shows "has_column ''code'' (get_courses_df s)" and "has_column ''carry_weight'' (get_courses_df s)"
  using assms by (simp_all add: get_courses_df_def DataFrame_courses_def has_column_def course_columns_def)

text \<open>
  Whenever every due date parses, \<open>get_weekly_workload\<close> leaves a \<open>week\<close>
  column on the table it was given.
\<close>

lemma get_weekly_workload_adds_week:
  assumes "\<not> df_empty df" and "has_column ''due_date'' df" and "\<not> has_column ''week'' df"
    and "to_datetime_all to_datetime (map due_date (rows df)) = Inr ts"
  shows "has_column ''week'' (snd (get_weekly_workload to_datetime df))"
    and "snd (get_weekly_workload to_datetime df) \<noteq> df"
proof -
  show "has_column ''week'' (snd (get_weekly_workload to_datetime df))"
    using assms
    by (simp add: get_weekly_workload_def Let_def has_column_def set_column_def)
  with assms(3) show "snd (get_weekly_workload to_datetime df) \<noteq> df"
    by auto
qed

text \<open>
  On tables that have the columns it reads, \<open>calculate_current_grade\<close> never raises:
  it is 0 without a course or without a matching entry, the sum of the contributions
  when the table has the \<open>final_contribution\<close> column, and the weighted carry
  percentage otherwise.
\<close>

lemma calculate_current_grade_spec:
  assumes "has_column ''code'' courses_df" and "has_column ''carry_weight'' courses_df"
    and "has_column ''course_code'' df" and "has_column ''earned'' df"
    and "has_column ''max_possible'' df"
  shows "calculate_current_grade course_code df courses_df =
    Inr (let cs = filter (\<lambda>c. code c = course_code) (rows courses_df);
             ms = filter (\<lambda>m. cm_course_code m = course_code) (rows df) in
         if cs = [] then 0
         else if ms = [] then 0
         else if has_column ''final_contribution'' df then sum_skipna (map final_contribution ms)
         else (if sum_list (map max_possible ms) = 0 then 0
               else 100 * sum_list (map earned ms) / sum_list (map max_possible ms))
              * carry_weight (hd cs) / 100)"
proof -
  have e1: "df_empty (df_filter p courses_df) \<longleftrightarrow> filter p (rows courses_df) = []" for p
    using assms(1) by (simp add: has_column_not_empty)
  have e2: "df_empty (df_filter p df) \<longleftrightarrow> filter p (rows df) = []" for p
    using assms(3) by (simp add: has_column_not_empty)
  have e3: "df_empty df \<longleftrightarrow> rows df = []"
    using assms(3) by (simp add: has_column_not_empty)
  have cp: "calculate_carry_percentage course_code df =
    Inr (let ms = filter (\<lambda>m. cm_course_code m = course_code) (rows df) in
         if df_empty df then 0
         else if ms = [] then 0
         else if sum_list (map max_possible ms) = 0 then 0
         else 100 * sum_list (map earned ms) / sum_list (map max_possible ms))"
    using assms(3-5) by (intro carry_percentage_eq) simp
  show ?thesis
    using assms
    by (auto simp: calculate_current_grade_def Let_def e1 e2 e3 cp split: list.splits)
qed

section \<open>The calculator's contracts\<close>

text \<open>
  Claim C4. \<open>get_grade_letter\<close> is defined on every real percentage and implements
  the descending table with closed lower boundaries: each letter is returned exactly on
  its own interval, the intervals neither overlap nor leave a gap, every boundary value
  90, 85, ..., 50 gets the letter of its own row, 49.999 gets F and 100 gets A+.
\<close>

theorem get_grade_letter_table:
  "(get_grade_letter p = ''A+'' \<longleftrightarrow> 90 \<le> p)
 \<and> (get_grade_letter p = ''A'' \<longleftrightarrow> 85 \<le> p \<and> p < 90)
 \<and> (get_grade_letter p = ''A-'' \<longleftrightarrow> 80 \<le> p \<and> p < 85)
 \<and> (get_grade_letter p = ''B+'' \<longleftrightarrow> 75 \<le> p \<and> p < 80)
 \<and> (get_grade_letter p = ''B'' \<longleftrightarrow> 70 \<le> p \<and> p < 75)
 \<and> (get_grade_letter p = ''B-'' \<longleftrightarrow> 65 \<le> p \<and> p < 70)
 \<and> (get_grade_letter p = ''C+'' \<longleftrightarrow> 60 \<le> p \<and> p < 65)
 \<and> (get_grade_letter p = ''C'' \<longleftrightarrow> 55 \<le> p \<and> p < 60)
 \<and> (get_grade_letter p = ''C-'' \<longleftrightarrow> 50 \<le> p \<and> p < 55)
 \<and> (get_grade_letter p = ''F'' \<longleftrightarrow> p < 50)
 \<and> map get_grade_letter [90, 85, 80, 75, 70, 65, 60, 55, 50]
       = [''A+'', ''A'', ''A-'', ''B+'', ''B'', ''B-'', ''C+'', ''C'', ''C-'']
 \<and> get_grade_letter 49.999 = ''F''
 \<and> get_grade_letter 100 = ''A+''"
  by (simp add: get_grade_letter_def)

text \<open>
  Claim C2. \<open>calculate_final_exam_requirement\<close> returns 0 when the exam weight is 0
  and otherwise the required exam percentage clamped below at 0; the result is never
  negative, and for target 70, carry percentage 80, carry weight 60 and exam weight 40
  it is 55.
\<close>

theorem calculate_final_exam_requirement_spec:
  "calculate_final_exam_requirement target_grade carry_percentage carry_w exam_w =
     (if exam_w = 0 then 0
      else max 0 ((target_grade - carry_percentage / 100 * carry_w / 100 * 100) / exam_w * 100))
 \<and> 0 \<le> calculate_final_exam_requirement target_grade carry_percentage carry_w exam_w
 \<and> calculate_final_exam_requirement 70 80 60 40 = 55"
  by (simp add: calculate_final_exam_requirement_def Let_def)

text \<open>
  Claim C3. \<open>calculate_carry_percentage\<close> returns 0 for an empty table, 0 when no
  entry matches the course code and 0 when the matching entries' \<open>max_possible\<close>
  sum to 0; otherwise it returns 100 times the sum of \<open>earned\<close> over the sum of
  \<open>max_possible\<close> of the matching entries, with no weight applied. The table is
  empty or has the three columns the function reads, as every table of
  \<open>get_carry_marks_df\<close> has (\<open>get_carry_marks_df_columns\<close>).
\<close>

theorem calculate_carry_percentage_spec:
  assumes "df_empty df \<or> (has_column ''course_code'' df \<and> has_column ''earned'' df
             \<and> has_column ''max_possible'' df)"
  shows "calculate_carry_percentage course_code df =
    Inr (let ms = filter (\<lambda>m. cm_course_code m = course_code) (rows df) in
         if df_empty df then 0
         else if ms = [] then 0
         else if sum_list (map max_possible ms) = 0 then 0
         else 100 * sum_list (map earned ms) / sum_list (map max_possible ms))"
  using assms by (rule carry_percentage_eq)

text \<open>
  The example of the specification: entries 8/10 and 18/20 give 260/3, which is 86.67
  to two decimals; an empty table, a course without entries and entries worth 0 points
  give 0.
\<close>

theorem calculate_carry_percentage_witness:
  "has_column ''course_code'' (DataFrame_carry_marks [quiz_mark ''BSD 1323'' 8 10 None, quiz_mark ''BSD 1323'' 18 20 None])
 \<and> calculate_carry_percentage ''BSD 1323''
      (DataFrame_carry_marks [quiz_mark ''BSD 1323'' 8 10 None, quiz_mark ''BSD 1323'' 18 20 None])
     = Inr (260 / 3)
 \<and> \<bar>260 / 3 - 86.67\<bar> < (0.005 :: real)
 \<and> calculate_carry_percentage ''BSD 1323'' \<lparr>columns = [], rows = []\<rparr> = Inr 0
 \<and> calculate_carry_percentage ''BUM 2413''
      (DataFrame_carry_marks [quiz_mark ''BSD 1323'' 8 10 None, quiz_mark ''BSD 1323'' 18 20 None])
     = Inr 0
 \<and> calculate_carry_percentage ''BSD 1323'' (DataFrame_carry_marks [quiz_mark ''BSD 1323'' 0 0 None])
     = Inr 0"
  using calculate_carry_percentage_spec [of "DataFrame_carry_marks [quiz_mark ''BSD 1323'' 8 10 None, quiz_mark ''BSD 1323'' 18 20 None]" "''BSD 1323''"]
    calculate_carry_percentage_spec [of "\<lparr>columns = [], rows = []\<rparr>" "''BSD 1323''"]
    calculate_carry_percentage_spec [of "DataFrame_carry_marks [quiz_mark ''BSD 1323'' 8 10 None, quiz_mark ''BSD 1323'' 18 20 None]" "''BUM 2413''"]
    calculate_carry_percentage_spec [of "DataFrame_carry_marks [quiz_mark ''BSD 1323'' 0 0 None]" "''BSD 1323''"]
  by (simp add: DataFrame_carry_marks_def carry_mark_columns_def has_column_def df_empty_def Let_def)

text \<open>
  Claim C1, at the input where the code departs from it. After every course has been
  deleted, \<open>get_courses_df\<close> builds its table from an empty list, so the table has
  no \<open>code\<close> column and \<open>courses_df['code']\<close> raises \<open>KeyError\<close>
  where the claim promises the result 0 for a course that is not found.
\<close>

theorem calculate_current_grade_no_courses:
  "courses ((delete_course 0 ^^ 7) initialize_session_state) = []
 \<and> calculate_current_grade ''BSD 1323''
      (get_carry_marks_df ((delete_course 0 ^^ 7) initialize_session_state))
      (get_courses_df ((delete_course 0 ^^ 7) initialize_session_state))
     = Inl (KeyError ''code'')"
proof -
  have "courses ((delete_course 0 ^^ 7) initialize_session_state) = []"
    by (simp add: numeral_eq_Suc delete_course_def in_range_def del_at_def
        initialize_session_state_def get_default_courses_def Let_def)
  then show ?thesis
    by (simp add: calculate_current_grade_def get_courses_df_def DataFrame_courses_def has_column_def)
qed

text \<open>
  Claim C9. \<open>calculate_days_until_due\<close> returns 0, raising nothing, for every
  string that \<open>strptime\<close> rejects in the format \<open>%Y-%m-%d\<close>. For a string
  that parses it returns the whole number of days from now to midnight of the parsed
  date, rounded down: the delta lies between that many days and one day more, and the
  result is negative exactly when the date lies before now. This holds for whatever the
  parser and the clock return.
\<close>

theorem calculate_days_until_due_spec:
  "(strptime due_date_str = Inl e \<longrightarrow> calculate_days_until_due strptime now due_date_str = 0)
 \<and> (strptime due_date_str = Inr due \<longrightarrow>
      calculate_days_until_due strptime now due_date_str = (due - now) div us_per_day
    \<and> calculate_days_until_due strptime now due_date_str * us_per_day \<le> due - now
    \<and> due - now < (calculate_days_until_due strptime now due_date_str + 1) * us_per_day
    \<and> (calculate_days_until_due strptime now due_date_str < 0 \<longleftrightarrow> due < now))"
proof -
  have pos: "0 < us_per_day" by (simp add: us_per_day_def)
  show ?thesis
    using floor_div_bounds [OF pos, of "due - now"]
    by (simp add: calculate_days_until_due_def timedelta_days_def)
qed

text \<open>
  Due on 2024-01-15: at 10:00 of that day the result is -1, at 10:00 five days earlier
  it is 4; a date in another format gives 0.
\<close>

theorem calculate_days_until_due_witness:
  "calculate_days_until_due
     (\<lambda>x. if x = ''2024-01-15'' then Inr 1705276800000000 else Inl ValueError)
     1705312800000000 ''2024-01-15'' = - 1
 \<and> calculate_days_until_due
     (\<lambda>x. if x = ''2024-01-15'' then Inr 1705276800000000 else Inl ValueError)
     1704880800000000 ''2024-01-15'' = 4
 \<and> calculate_days_until_due
     (\<lambda>x. if x = ''2024-01-15'' then Inr 1705276800000000 else Inl ValueError)
     1705312800000000 ''15/01/2024'' = 0"
  using calculate_days_until_due_spec
      [of "\<lambda>x. if x = ''2024-01-15'' then Inr 1705276800000000 else Inl ValueError"
          "''2024-01-15''" ValueError 1705312800000000 1705276800000000]
    calculate_days_until_due_spec
      [of "\<lambda>x. if x = ''2024-01-15'' then Inr 1705276800000000 else Inl ValueError"
          "''2024-01-15''" ValueError 1704880800000000 1705276800000000]
    calculate_days_until_due_spec
      [of "\<lambda>x. if x = ''2024-01-15'' then Inr 1705276800000000 else Inl ValueError"
          "''15/01/2024''" ValueError 1705312800000000 0]
  by (simp add: us_per_day_def)

text \<open>
  Claim C10, as the code has it. \<open>add_carry_mark\<close> stores whatever dictionary it
  is given, and a table built from entries none of which has the
  \<open>final_contribution\<close> key has no such column. With one such entry in the store
  the table of \<open>get_carry_marks_df\<close> lacks the column and
  \<open>calculate_current_grade\<close> takes the fallback: it returns 80 percent of the carry
  weight 60, where the sum of the contributions would be 0.
\<close>

theorem fallback_taken_at_accessor:
  "\<not> has_column ''final_contribution''
      (get_carry_marks_df (add_carry_mark ''2024-01-15'' (quiz_mark ''BSD 1323'' 8 10 None)
         initialize_session_state))
 \<and> calculate_current_grade ''BSD 1323''
      (get_carry_marks_df (add_carry_mark ''2024-01-15'' (quiz_mark ''BSD 1323'' 8 10 None)
         initialize_session_state))
      (get_courses_df (add_carry_mark ''2024-01-15'' (quiz_mark ''BSD 1323'' 8 10 None)
         initialize_session_state))
     = Inr 48
 \<and> sum_skipna (map final_contribution
      (carry_marks (add_carry_mark ''2024-01-15'' (quiz_mark ''BSD 1323'' 8 10 None)
         initialize_session_state))) = 0"
  by (simp add: add_carry_mark_def initialize_session_state_def get_default_courses_def
      get_carry_marks_df_def DataFrame_carry_marks_def carry_mark_columns_def
      get_courses_df_def DataFrame_courses_def course_columns_def
      calculate_current_grade_def calculate_carry_percentage_def has_column_def df_empty_def
      sum_skipna_def Let_def)

text \<open>
  Claim C10, amended. The table of \<open>get_carry_marks_df\<close> has the
  \<open>final_contribution\<close> column exactly when the collection is empty or some stored
  entry carries the field. For a course of the store with at least one matching entry,
  \<open>calculate_current_grade\<close> on the accessors' tables returns the sum of
  \<open>final_contribution\<close> over the matching entries when some stored entry carries
  the field, and the carry percentage times the carry weight over 100 when none does.
\<close>

theorem final_contribution_path_amended:
  "(has_column ''final_contribution'' (get_carry_marks_df s)
      \<longleftrightarrow> carry_marks s = [] \<or> list_ex (\<lambda>m. final_contribution m \<noteq> None) (carry_marks s))
 \<and> (filter (\<lambda>c. code c = course_code) (courses s) \<noteq> []
      \<and> filter (\<lambda>m. cm_course_code m = course_code) (carry_marks s) \<noteq> [] \<longrightarrow>
    calculate_current_grade course_code (get_carry_marks_df s) (get_courses_df s) =
      Inr (if list_ex (\<lambda>m. final_contribution m \<noteq> None) (carry_marks s)
           then sum_skipna (map final_contribution
                  (filter (\<lambda>m. cm_course_code m = course_code) (carry_marks s)))
           else (if sum_list (map max_possible
                      (filter (\<lambda>m. cm_course_code m = course_code) (carry_marks s))) = 0
                 then 0
                 else 100 * sum_list (map earned
                        (filter (\<lambda>m. cm_course_code m = course_code) (carry_marks s)))
                      / sum_list (map max_possible
                        (filter (\<lambda>m. cm_course_code m = course_code) (carry_marks s))))
                * carry_weight (hd (filter (\<lambda>c. code c = course_code) (courses s))) / 100))"
proof (intro conjI impI)
  show "has_column ''final_contribution'' (get_carry_marks_df s)
      \<longleftrightarrow> carry_marks s = [] \<or> list_ex (\<lambda>m. final_contribution m \<noteq> None) (carry_marks s)"
    by (rule get_carry_marks_df_final_contribution)
next
  assume a: "filter (\<lambda>c. code c = course_code) (courses s) \<noteq> []
      \<and> filter (\<lambda>m. cm_course_code m = course_code) (carry_marks s) \<noteq> []"
  then have ne: "courses s \<noteq> []" "carry_marks s \<noteq> []" by auto
  have "calculate_current_grade course_code (get_carry_marks_df s) (get_courses_df s) =
    Inr (let cs = filter (\<lambda>c. code c = course_code) (rows (get_courses_df s));
             ms = filter (\<lambda>m. cm_course_code m = course_code) (rows (get_carry_marks_df s)) in
         if cs = [] then 0
         else if ms = [] then 0
         else if has_column ''final_contribution'' (get_carry_marks_df s)
           then sum_skipna (map final_contribution ms)
         else (if sum_list (map max_possible ms) = 0 then 0
               else 100 * sum_list (map earned ms) / sum_list (map max_possible ms))
              * carry_weight (hd cs) / 100)"
    by (rule calculate_current_grade_spec)
       (simp_all add: get_courses_df_columns ne get_carry_marks_df_columns)
  then show "calculate_current_grade course_code (get_carry_marks_df s) (get_courses_df s) =
      Inr (if list_ex (\<lambda>m. final_contribution m \<noteq> None) (carry_marks s)
           then sum_skipna (map final_contribution
                  (filter (\<lambda>m. cm_course_code m = course_code) (carry_marks s)))
           else (if sum_list (map max_possible
                      (filter (\<lambda>m. cm_course_code m = course_code) (carry_marks s))) = 0
                 then 0
                 else 100 * sum_list (map earned
                        (filter (\<lambda>m. cm_course_code m = course_code) (carry_marks s)))
                      / sum_list (map max_possible
                        (filter (\<lambda>m. cm_course_code m = course_code) (carry_marks s))))
                * carry_weight (hd (filter (\<lambda>c. code c = course_code) (courses s))) / 100)"
    using a ne by (simp add: Let_def get_carry_marks_df_final_contribution)
qed

text \<open>
  A course with one entry that carries a contribution of 12 and one that carries none
  gets 12; the empty collection has the column; a single entry without the field gets
  the fallback value 48.
\<close>

theorem final_contribution_path_witness:
  "calculate_current_grade ''BSD 1323''
      (get_carry_marks_df
        (add_carry_mark ''2024-01-16'' (quiz_mark ''BSD 1323'' 18 20 None)
        (add_carry_mark ''2024-01-15'' (quiz_mark ''BSD 1323'' 8 10 (Some 12))
         initialize_session_state)))
      (get_courses_df
        (add_carry_mark ''2024-01-16'' (quiz_mark ''BSD 1323'' 18 20 None)
        (add_carry_mark ''2024-01-15'' (quiz_mark ''BSD 1323'' 8 10 (Some 12))
         initialize_session_state)))
     = Inr 12
 \<and> has_column ''final_contribution'' (get_carry_marks_df initialize_session_state)
 \<and> calculate_current_grade ''BSD 1323''
      (get_carry_marks_df (add_carry_mark ''2024-01-15'' (quiz_mark ''BSD 1323'' 8 10 None)
         initialize_session_state))
      (get_courses_df (add_carry_mark ''2024-01-15'' (quiz_mark ''BSD 1323'' 8 10 None)
         initialize_session_state))
     = Inr 48"
  using final_contribution_path_amended
      [of "add_carry_mark ''2024-01-16'' (quiz_mark ''BSD 1323'' 18 20 None)
        (add_carry_mark ''2024-01-15'' (quiz_mark ''BSD 1323'' 8 10 (Some 12))
         initialize_session_state)" "''BSD 1323''"]
    final_contribution_path_amended [of initialize_session_state "''BSD 1323''"]
    final_contribution_path_amended
      [of "add_carry_mark ''2024-01-15'' (quiz_mark ''BSD 1323'' 8 10 None)
         initialize_session_state" "''BSD 1323''"]
  by (simp add: add_carry_mark_def initialize_session_state_def get_default_courses_def
      sum_skipna_def)

text \<open>
  Claim C5, at the input where the code departs from it. \<open>get_weekly_workload\<close>
  assigns \<open>assignments_df['due_date']\<close> and \<open>assignments_df['week']\<close> on
  the table passed in, without copying it first. For the table of a store with one
  pending assignment due on 2024-01-15, the table has no \<open>week\<close> column before
  the call and has one after it, and its \<open>due_date\<close> cell has changed from the
  string to a timestamp: the collection passed in is not unchanged.
\<close>

theorem get_weekly_workload_mutates_argument:
  "\<not> has_column ''week''
      (get_assignments_df (add_assignment
         \<lparr>title = ''Essay'', a_course_code = ''BSD 1323'', a_type = ''Homework'',
          due_date = DateStr ''2024-01-15'', status = ''pending'', description = [],
          week = None\<rparr> initialize_session_state))
 \<and> has_column ''week'' (snd (get_weekly_workload
      (\<lambda>c. case c of DateStr x \<Rightarrow> if x = ''2024-01-15'' then Inr 1705276800000000 else Inl ValueError
                    | Timestamp t \<Rightarrow> Inr t)
      (get_assignments_df (add_assignment
         \<lparr>title = ''Essay'', a_course_code = ''BSD 1323'', a_type = ''Homework'',
          due_date = DateStr ''2024-01-15'', status = ''pending'', description = [],
          week = None\<rparr> initialize_session_state))))
 \<and> map due_date (rows (snd (get_weekly_workload
      (\<lambda>c. case c of DateStr x \<Rightarrow> if x = ''2024-01-15'' then Inr 1705276800000000 else Inl ValueError
                    | Timestamp t \<Rightarrow> Inr t)
      (get_assignments_df (add_assignment
         \<lparr>title = ''Essay'', a_course_code = ''BSD 1323'', a_type = ''Homework'',
          due_date = DateStr ''2024-01-15'', status = ''pending'', description = [],
          week = None\<rparr> initialize_session_state)))))
     = [Timestamp 1705276800000000]
 \<and> snd (get_weekly_workload
      (\<lambda>c. case c of DateStr x \<Rightarrow> if x = ''2024-01-15'' then Inr 1705276800000000 else Inl ValueError
                    | Timestamp t \<Rightarrow> Inr t)
      (get_assignments_df (add_assignment
         \<lparr>title = ''Essay'', a_course_code = ''BSD 1323'', a_type = ''Homework'',
          due_date = DateStr ''2024-01-15'', status = ''pending'', description = [],
          week = None\<rparr> initialize_session_state)))
     \<noteq> get_assignments_df (add_assignment
         \<lparr>title = ''Essay'', a_course_code = ''BSD 1323'', a_type = ''Homework'',
          due_date = DateStr ''2024-01-15'', status = ''pending'', description = [],
          week = None\<rparr> initialize_session_state)"
  by (simp add: get_weekly_workload_def get_assignments_df_def DataFrame_assignments_def
      add_assignment_def initialize_session_state_def assignment_columns_def
      has_column_def df_empty_def set_column_def Let_def)

section \<open>The record store's contracts\<close>

text \<open>
  Claim C6. For an index in range, \<open>delete_course\<close> removes exactly the carry
  marks, assignments and final-exam entries whose course code is the code of the course
  at that index: what remains of each collection is the original with the matching
  records filtered out, so the other records stay, in their order. It then removes the
  course at the index: the courses before it keep their place and the later ones move up
  by one.
\<close>

theorem delete_course_cascade:
  assumes "0 \<le> index" and "index < int (length (courses s))"
  shows "carry_marks (delete_course index s)
           = filter (\<lambda>m. cm_course_code m \<noteq> code (courses s ! nat index)) (carry_marks s)
       \<and> assignments (delete_course index s)
           = filter (\<lambda>a. a_course_code a \<noteq> code (courses s ! nat index)) (assignments s)
       \<and> final_exams (delete_course index s)
           = filter (\<lambda>e. fe_course_code e \<noteq> code (courses s ! nat index)) (final_exams s)
       \<and> set (carry_marks (delete_course index s))
           = set (carry_marks s) - {m. cm_course_code m = code (courses s ! nat index)}
       \<and> set (assignments (delete_course index s))
           = set (assignments s) - {a. a_course_code a = code (courses s ! nat index)}
       \<and> set (final_exams (delete_course index s))
           = set (final_exams s) - {e. fe_course_code e = code (courses s ! nat index)}
       \<and> courses (delete_course index s)
           = take (nat index) (courses s) @ drop (Suc (nat index)) (courses s)
       \<and> length (courses (delete_course index s)) = length (courses s) - 1
       \<and> (\<forall>j < length (courses s) - 1. courses (delete_course index s) ! j
             = (if j < nat index then courses s ! j else courses s ! Suc j))
       \<and> theme_color (delete_course index s) = theme_color s"
proof -
  have r: "in_range index (courses s)" and n: "nat index < length (courses s)"
    using assms by (auto simp: in_range_def)
  have d: "delete_course index s =
      s\<lparr>carry_marks := filter (\<lambda>cm. cm_course_code cm \<noteq> code (courses s ! nat index)) (carry_marks s),
        assignments := filter (\<lambda>a. a_course_code a \<noteq> code (courses s ! nat index)) (assignments s),
        final_exams := filter (\<lambda>fe. fe_course_code fe \<noteq> code (courses s ! nat index)) (final_exams s),
        courses := del_at (nat index) (courses s)\<rparr>"
    using r by (simp add: delete_course_def Let_def)
  show ?thesis
    unfolding d using n
    by (auto simp: del_at_nth length_del_at) (simp_all add: del_at_def)
qed

text \<open>
  Deleting the first default course in a store holding one carry mark of that course and
  one of another course.
\<close>

theorem delete_course_cascade_witness:
  "(0::int) \<le> 0
 \<and> 0 < int (length (courses (add_carry_mark ''2024-01-15'' (quiz_mark ''BSD 2143'' 5 10 None)
        (add_carry_mark ''2024-01-15'' (quiz_mark ''BSD 1323'' 8 10 None) initialize_session_state))))
 \<and> map cm_course_code (carry_marks (delete_course 0
        (add_carry_mark ''2024-01-15'' (quiz_mark ''BSD 2143'' 5 10 None)
        (add_carry_mark ''2024-01-15'' (quiz_mark ''BSD 1323'' 8 10 None) initialize_session_state))))
     = [''BSD 2143'']
 \<and> map code (courses (delete_course 0
        (add_carry_mark ''2024-01-15'' (quiz_mark ''BSD 2143'' 5 10 None)
        (add_carry_mark ''2024-01-15'' (quiz_mark ''BSD 1323'' 8 10 None) initialize_session_state))))
     = [''BSD 2143'', ''BUM 2413'', ''BUM 2123'', ''BCU 1023'', ''ULS 1312'', ''UHE 3032'']"
  using delete_course_cascade [of 0 "add_carry_mark ''2024-01-15'' (quiz_mark ''BSD 2143'' 5 10 None)
        (add_carry_mark ''2024-01-15'' (quiz_mark ''BSD 1323'' 8 10 None) initialize_session_state)"]
  by (simp add: add_carry_mark_def initialize_session_state_def get_default_courses_def)

text \<open>
  Claim C7. For an index outside the range of its collection (negative, or at least the
  length), \<open>update_course\<close>, \<open>delete_course\<close>,
  \<open>update_assignment_status\<close> and \<open>delete_assignment\<close> return the store
  unchanged: all four collections are as before. They raise nothing: the guard
  \<open>0 <= index < len(...)\<close> is the only place an exception could come from, and
  the operations are total functions on the store.
\<close>

theorem out_of_range_noop:
  "(index < 0 \<or> int (length (courses s)) \<le> index \<longrightarrow>
      update_course index course_data s = s \<and> delete_course index s = s)
 \<and> (index < 0 \<or> int (length (assignments s)) \<le> index \<longrightarrow>
      update_assignment_status index new_status s = s \<and> delete_assignment index s = s)"
  by (auto simp: update_course_def delete_course_def update_assignment_status_def
        delete_assignment_def in_range_def)

text \<open>
  Deleting the last course twice: the second call is out of range and changes nothing.
\<close>

theorem out_of_range_noop_witness:
  "int (length (courses (delete_course 6 initialize_session_state))) \<le> 6
 \<and> delete_course 6 (delete_course 6 initialize_session_state)
      = delete_course 6 initialize_session_state
 \<and> update_course 6 \<lparr>code = ''BSD 9999'', name = ''New'', carry_weight = 50, exam_weight = 50\<rparr>
      (delete_course 6 initialize_session_state) = delete_course 6 initialize_session_state
 \<and> update_assignment_status (- 1) ''completed'' initialize_session_state = initialize_session_state
 \<and> delete_assignment 0 initialize_session_state = initialize_session_state"
  using out_of_range_noop [of 6 "delete_course 6 initialize_session_state"
      "\<lparr>code = ''BSD 9999'', name = ''New'', carry_weight = 50, exam_weight = 50\<rparr>"]
    out_of_range_noop [of "- 1" initialize_session_state _ "''completed''"]
    out_of_range_noop [of 0 initialize_session_state]
  by (simp add: delete_course_def in_range_def del_at_def initialize_session_state_def
      get_default_courses_def Let_def)

text \<open>
  Claim C8, as the code has it. The store never checks a course code: the unamended
  claim fails when \<open>add_course\<close> is given the code of a default course.
\<close>

theorem add_course_duplicate_code:
  "\<not> distinct (map code (courses (add_course
        \<lparr>code = ''BSD 1323'', name = ''Storytelling'', carry_weight = 60, exam_weight = 40\<rparr>
        initialize_session_state)))"
  by (simp add: add_course_def initialize_session_state_def get_default_courses_def)

text \<open>
  Claim C8, amended. The default courses have pairwise distinct codes. From a store with
  distinct codes, \<open>add_course\<close> gives distinct codes exactly when the new code is
  not in the collection, \<open>update_course\<close> (index in range) exactly when the new
  code is not the code of another course, and \<open>delete_course\<close>,
  \<open>add_carry_mark\<close>, \<open>add_assignment\<close>,
  \<open>update_assignment_status\<close> and \<open>delete_assignment\<close> always do.
\<close>

theorem course_codes_distinct_amended:
  "distinct (map code (courses initialize_session_state))
 \<and> (distinct (map code (courses s)) \<longrightarrow>
      (distinct (map code (courses (add_course course_data s)))
         \<longleftrightarrow> code course_data \<notin> code ` set (courses s))
    \<and> (0 \<le> index \<and> index < int (length (courses s)) \<longrightarrow>
         (distinct (map code (courses (update_course index course_data s)))
            \<longleftrightarrow> code course_data \<notin> code ` set (del_at (nat index) (courses s))))
    \<and> distinct (map code (courses (delete_course index s)))
    \<and> distinct (map code (courses (add_carry_mark today carry_data s)))
    \<and> distinct (map code (courses (add_assignment assignment_data s)))
    \<and> distinct (map code (courses (update_assignment_status index new_status s)))
    \<and> distinct (map code (courses (delete_assignment index s))))"
proof -
  have init: "distinct (map code (courses initialize_session_state))"
    by (simp add: initialize_session_state_def get_default_courses_def)
  have step: ?thesis if d: "distinct (map code (courses s))"
  proof -
    have "distinct (map code (courses (delete_course index s)))"
      using d by (simp add: delete_course_def Let_def distinct_del_at)
    moreover have "distinct (map code (courses (update_course index course_data s)))
            \<longleftrightarrow> code course_data \<notin> code ` set (del_at (nat index) (courses s))"
      if "0 \<le> index" "index < int (length (courses s))"
      using that d by (simp add: update_course_def in_range_def distinct_update)
    ultimately show ?thesis
      using d init
      by (auto simp: add_course_def add_carry_mark_def add_assignment_def
          update_assignment_status_def delete_assignment_def)
  qed
  show ?thesis
  proof (cases "distinct (map code (courses s))")
    case True then show ?thesis by (rule step)
  next
    case False then show ?thesis using init by simp
  qed
qed

theorem course_codes_distinct_witness:
  "distinct (map code (courses initialize_session_state))
 \<and> code \<lparr>code = ''BSD 9999'', name = ''New'', carry_weight = 50, exam_weight = 50\<rparr>
      \<notin> code ` set (courses initialize_session_state)
 \<and> distinct (map code (courses (add_course
        \<lparr>code = ''BSD 9999'', name = ''New'', carry_weight = 50, exam_weight = 50\<rparr>
        initialize_session_state)))
 \<and> distinct (map code (courses (update_course 0
        \<lparr>code = ''BSD 9999'', name = ''New'', carry_weight = 50, exam_weight = 50\<rparr>
        initialize_session_state)))
 \<and> \<not> distinct (map code (courses (update_course 0
        \<lparr>code = ''BSD 2143'', name = ''New'', carry_weight = 50, exam_weight = 50\<rparr>
        initialize_session_state)))
 \<and> distinct (map code (courses (delete_course 3 initialize_session_state)))"
  using course_codes_distinct_amended [of initialize_session_state
      "\<lparr>code = ''BSD 9999'', name = ''New'', carry_weight = 50, exam_weight = 50\<rparr>" 0]
    course_codes_distinct_amended [of initialize_session_state
      "\<lparr>code = ''BSD 2143'', name = ''New'', carry_weight = 50, exam_weight = 50\<rparr>" 0]
    course_codes_distinct_amended [of initialize_session_state
      "\<lparr>code = ''BSD 9999'', name = ''New'', carry_weight = 50, exam_weight = 50\<rparr>" 3]
  by (simp add: initialize_session_state_def get_default_courses_def del_at_def)

end
